theory Spec2Isabelle
  imports Complex_Main
begin

section \<open>Data model of the session store\<close>

text \<open>
  The store of the frontend (\<^verbatim>\<open>store.ts\<close>, a zustand store created with
  \<^verbatim>\<open>subscribeWithSelector\<close>) is embedded as a record; every action of the store is a
  function from the state before the action to the state after it. JavaScript numbers
  are modelled as reals (no arithmetic is done on them here, they are stored and compared
  with zero), text as byte strings in UTF-8, and a value of TypeScript type \<^verbatim>\<open>any\<close> that
  the store only passes on as a JSON value.
\<close>

datatype json =
    JNull
  | JBool bool
  | JNum real
  | JStr string
  | JArr "json list"
  | JObj "(string \<times> json) list"

text \<open>
  \<^verbatim>\<open>MapLayer\<close>. The field \<^verbatim>\<open>type\<close> is a union of string literals in TypeScript
  (geojson, raster, vector-tile, 3d-terrain, deck, fill-extrusion, heatmap, circle, line);
  the store copies it unchecked from the wire, so it is a string here.
\<close>

record MapLayer =
  id_l :: string
  name_l :: string
  type_l :: string
  visible :: bool
  opacity :: real
  source :: json
  paint :: "json option"
  deckLayer :: "json option"

record ChartData =
  type_c :: string
  title :: string
  labels :: "json list"
  datasets :: "json list"

text \<open>
  The \<^verbatim>\<open>map_action\<close> object of a chat response; the store keeps the object as it came.
  \<open>ref_a\<close> is the identity of the object: a subscription compares what it is given with
  \<^verbatim>\<open>Object.is\<close>, by reference, so two objects with the same fields are still two objects.
\<close>

record MapActionDescriptor =
  ref_a :: nat
  type_a :: string
  center :: "(real \<times> real) option"
  zoom_a :: "real option"
  pitch_a :: "real option"
  bearing_a :: "real option"
  bounds :: "((real \<times> real) \<times> (real \<times> real)) option"
  duration :: "real option"

datatype Role = User | Assistant | System

text \<open>
  \<^verbatim>\<open>Omit<ChatMessage, 'id' | 'timestamp'>\<close> is the argument of \<^verbatim>\<open>addMessage\<close>;
  \<^verbatim>\<open>ChatMessage\<close> extends it by the two fields the store assigns.
\<close>

record MessageDraft =
  role :: Role
  content :: string
  code :: "string option"
  mapLayers :: "MapLayer list option"
  data_m :: "json option"
  chart :: "ChartData option"
  mapAction :: "MapActionDescriptor option"

record ChatMessage = MessageDraft +
  id_m :: string
  timestamp :: nat

record MapViewState =
  longitude :: real
  latitude :: real
  zoom :: real
  pitch :: real
  bearing :: real

text \<open>\<^verbatim>\<open>Partial<MapViewState>\<close>: a field that is absent is \<open>None\<close>.\<close>

record PartialViewState =
  longitude_p :: "real option"
  latitude_p :: "real option"
  zoom_p :: "real option"
  pitch_p :: "real option"
  bearing_p :: "real option"

datatype Panel = Chat | Layers | Data | Code

record AppState =
  viewState :: MapViewState
  layers :: "MapLayer list"
  selectedBasemap :: string
  is3DEnabled :: bool
  pendingMapAction :: "MapActionDescriptor option"
  messages :: "ChatMessage list"
  isLoading :: bool
  currentChart :: "ChartData option"
  isSidebarOpen :: bool
  activePanel :: Panel
  showCode :: bool
  showChart :: bool

subsection \<open>The initial state\<close>

definition welcome_content :: string where
  \<open>welcome_content =
     ''# '' @
     [CHR 0xF0, CHR 0x9F, CHR 0x8C, CHR 0x8D] @
     '' Welcome to ApexGIS v3.0 - Presidential Platform'' @
     [CHR 0x0A, CHR 0x0A] @
     ''I'' @
     [CHR 0x27] @
     ''m your AI assistant for advanced geospatial and environmenta'' @
     ''l analysis. Here'' @
     [CHR 0x27] @
     ''s what I can do:'' @
     [CHR 0x0A, CHR 0x0A] @
     ''**'' @
     [CHR 0xF0, CHR 0x9F, CHR 0x8C, CHR 0xA1, CHR 0xEF, CHR 0xB8, CHR 0x8F] @
     '' Environmental Monitoring (NEW!):**'' @
     [CHR 0x0A] @
     ''- '' @
     [CHR 0x22] @
     ''Show air quality'' @
     [CHR 0x22] @
     '' - Real-time AQI data'' @
     [CHR 0x0A] @
     ''- '' @
     [CHR 0x22] @
     ''Show methane emissions'' @
     [CHR 0x22] @
     '' - CH'' @
     [CHR 0xE2, CHR 0x82, CHR 0x84] @
     '' hotspots'' @
     [CHR 0x0A] @
     ''- '' @
     [CHR 0x22] @
     ''Show CO2 emissions'' @
     [CHR 0x22] @
     '' - Industrial sources'' @
     [CHR 0x0A] @
     ''- '' @
     [CHR 0x22] @
     ''Wind flow'' @
     [CHR 0x22] @
     '' - Animated wind patterns'' @
     [CHR 0x0A, CHR 0x0A] @
     ''**'' @
     [CHR 0xF0, CHR 0x9F, CHR 0x94, CHR 0xA5] @
     '' Active Monitoring:**'' @
     [CHR 0x0A] @
     ''- '' @
     [CHR 0x22] @
     ''Show fires'' @
     [CHR 0x22] @
     '' - NASA FIRMS fire detection'' @
     [CHR 0x0A] @
     ''- '' @
     [CHR 0x22] @
     ''Temperature map'' @
     [CHR 0x22] @
     '' - ERA5 temperature data'' @
     [CHR 0x0A] @
     ''- '' @
     [CHR 0x22] @
     ''Environmental dashboard'' @
     [CHR 0x22] @
     '' - All data overview'' @
     [CHR 0x0A, CHR 0x0A] @
     ''**'' @
     [CHR 0xF0, CHR 0x9F, CHR 0x93, CHR 0x8D] @
     '' City Navigation:**'' @
     [CHR 0x0A] @
     ''- '' @
     [CHR 0x22] @
     ''Show me Astana'' @
     [CHR 0x22] @
     '' / '' @
     [CHR 0x22] @
     ''Zoom to Almaty'' @
     [CHR 0x22, CHR 0x0A] @
     ''- '' @
     [CHR 0x22] @
     ''Go to Shymkent'' @
     [CHR 0x22, CHR 0x0A, CHR 0x0A] @
     ''**'' @
     [CHR 0xF0, CHR 0x9F, CHR 0x92, CHR 0xA7] @
     '' Hydrology:**'' @
     [CHR 0x0A] @
     ''- '' @
     [CHR 0x22] @
     ''Glaciers near Almaty'' @
     [CHR 0x22, CHR 0x0A] @
     ''- '' @
     [CHR 0x22] @
     ''Rivers near Almaty'' @
     [CHR 0x22, CHR 0x0A] @
     ''- '' @
     [CHR 0x22] @
     ''Show all water bodies'' @
     [CHR 0x22, CHR 0x0A, CHR 0x0A] @
     ''**'' @
     [CHR 0xF0, CHR 0x9F, CHR 0x93, CHR 0x8A] @
     '' Data Analysis:**'' @
     [CHR 0x0A] @
     ''- '' @
     [CHR 0x22] @
     ''Population of Almaty'' @
     [CHR 0x22, CHR 0x0A] @
     ''- '' @
     [CHR 0x22] @
     ''Compare Astana vs Almaty'' @
     [CHR 0x22, CHR 0x0A] @
     ''- '' @
     [CHR 0x22] @
     ''Show all cities'' @
     [CHR 0x22, CHR 0x0A, CHR 0x0A] @
     ''*Data Sources: OpenAQ, Sentinel-5P, NASA FIRMS, ERA5*'' @
     [CHR 0x0A] @
     ''Currently tracking environmental data across Kazakhstan '' @
     [CHR 0xF0, CHR 0x9F, CHR 0x87, CHR 0xB0, CHR 0xF0, CHR 0x9F, CHR 0x87, CHR 0xBF]\<close>

text \<open>The store is created at some time \<open>t0\<close>, which \<^verbatim>\<open>new Date()\<close> reads.\<close>

definition initial_messages :: "nat \<Rightarrow> ChatMessage list" where
  "initial_messages t0 =
     [\<lparr>role = Assistant, content = welcome_content, code = None, mapLayers = None,
       data_m = None, chart = None, mapAction = None, id_m = ''welcome'', timestamp = t0\<rparr>]"

definition initial_state :: "nat \<Rightarrow> AppState" where
  "initial_state t0 =
     \<lparr>viewState = \<lparr>longitude = 67, latitude = 48, zoom = 4, pitch = 0, bearing = 0\<rparr>,
      layers = [],
      selectedBasemap = ''dark'',
      is3DEnabled = False,
      pendingMapAction = None,
      messages = initial_messages t0,
      isLoading = False,
      currentChart = None,
      isSidebarOpen = True,
      activePanel = Chat,
      showCode = False,
      showChart = True\<rparr>"

section \<open>Actions of the store\<close>

subsection \<open>Map actions\<close>

definition merge_field :: "'a \<Rightarrow> 'a option \<Rightarrow> 'a" where
  "merge_field old new = (case new of None \<Rightarrow> old | Some v \<Rightarrow> v)"

definition setViewState :: "PartialViewState \<Rightarrow> AppState \<Rightarrow> AppState" where
  "setViewState p s =
     s\<lparr>viewState :=
        \<lparr>longitude = merge_field (longitude (viewState s)) (longitude_p p),
         latitude = merge_field (latitude (viewState s)) (latitude_p p),
         zoom = merge_field (zoom (viewState s)) (zoom_p p),
         pitch = merge_field (pitch (viewState s)) (pitch_p p),
         bearing = merge_field (bearing (viewState s)) (bearing_p p)\<rparr>\<rparr>"

definition addLayer :: "MapLayer \<Rightarrow> AppState \<Rightarrow> AppState" where
  "addLayer layer s =
     s\<lparr>layers := filter (\<lambda>l. id_l l \<noteq> id_l layer) (layers s) @ [layer]\<rparr>"

definition removeLayer :: "string \<Rightarrow> AppState \<Rightarrow> AppState" where
  "removeLayer layerId s =
     s\<lparr>layers := filter (\<lambda>l. id_l l \<noteq> layerId) (layers s)\<rparr>"

definition clearLayers :: "AppState \<Rightarrow> AppState" where
  "clearLayers s = s\<lparr>layers := []\<rparr>"

definition toggleLayerVisibility :: "string \<Rightarrow> AppState \<Rightarrow> AppState" where
  "toggleLayerVisibility layerId s =
     s\<lparr>layers :=
        map (\<lambda>l. if id_l l = layerId then l\<lparr>visible := \<not> visible l\<rparr> else l) (layers s)\<rparr>"

definition setLayerOpacity :: "string \<Rightarrow> real \<Rightarrow> AppState \<Rightarrow> AppState" where
  "setLayerOpacity layerId v s =
     s\<lparr>layers :=
        map (\<lambda>l. if id_l l = layerId then l\<lparr>opacity := v\<rparr> else l) (layers s)\<rparr>"

definition setBasemap :: "string \<Rightarrow> AppState \<Rightarrow> AppState" where
  "setBasemap basemapId s = s\<lparr>selectedBasemap := basemapId\<rparr>"

definition toggle3D :: "AppState \<Rightarrow> AppState" where
  "toggle3D s =
     s\<lparr>is3DEnabled := \<not> is3DEnabled s,
       viewState := (viewState s)\<lparr>pitch := (if is3DEnabled s then 0 else 45)\<rparr>\<rparr>"

definition setMapAction :: "MapActionDescriptor option \<Rightarrow> AppState \<Rightarrow> AppState" where
  "setMapAction action s = s\<lparr>pendingMapAction := action\<rparr>"

definition clearMapAction :: "AppState \<Rightarrow> AppState" where
  "clearMapAction s = s\<lparr>pendingMapAction := None\<rparr>"

subsection \<open>Chat actions\<close>

text \<open>
  \<^verbatim>\<open>`msg-${Date.now()}`\<close>: the decimal digits of the clock, a count of milliseconds.
\<close>

fun decimal :: "nat \<Rightarrow> string" where
  "decimal n =
     (if n < 10 then [char_of (48 + n)]
      else decimal (n div 10) @ [char_of (48 + n mod 10)])"

declare decimal.simps [simp del]

text \<open>
  \<^verbatim>\<open>addMessage\<close> reads the clock twice: \<open>now\<close> is what \<^verbatim>\<open>Date.now()\<close> returns for the
  id and \<open>date\<close> what \<^verbatim>\<open>new Date()\<close> returns for the timestamp.
\<close>

definition addMessage :: "nat \<Rightarrow> nat \<Rightarrow> MessageDraft \<Rightarrow> AppState \<Rightarrow> AppState" where
  "addMessage now date m s =
     s\<lparr>messages := messages s @
        [\<lparr>role = role m, content = content m, code = code m, mapLayers = mapLayers m,
          data_m = data_m m, chart = chart m, mapAction = mapAction m,
          id_m = ''msg-'' @ decimal now, timestamp = date\<rparr>]\<rparr>"

definition cleared_content :: string where
  \<open>cleared_content =
     [CHR 0xF0, CHR 0x9F, CHR 0x8C, CHR 0x8D] @
     '' Chat cleared. How can I help you with geospatial analysis?''\<close>

definition clearMessages :: "nat \<Rightarrow> AppState \<Rightarrow> AppState" where
  "clearMessages date s =
     s\<lparr>messages :=
         [\<lparr>role = Assistant, content = cleared_content, code = None, mapLayers = None,
           data_m = None, chart = None, mapAction = None, id_m = ''welcome'',
           timestamp = date\<rparr>],
       currentChart := None\<rparr>"

definition setLoading :: "bool \<Rightarrow> AppState \<Rightarrow> AppState" where
  "setLoading loading s = s\<lparr>isLoading := loading\<rparr>"

definition setChart :: "ChartData option \<Rightarrow> AppState \<Rightarrow> AppState" where
  "setChart c s = s\<lparr>currentChart := c\<rparr>"

subsection \<open>Interface actions\<close>

definition toggleSidebar :: "AppState \<Rightarrow> AppState" where
  "toggleSidebar s = s\<lparr>isSidebarOpen := \<not> isSidebarOpen s\<rparr>"

definition setActivePanel :: "Panel \<Rightarrow> AppState \<Rightarrow> AppState" where
  "setActivePanel panel s = s\<lparr>activePanel := panel\<rparr>"

definition toggleCode :: "AppState \<Rightarrow> AppState" where
  "toggleCode s = s\<lparr>showCode := \<not> showCode s\<rparr>"

definition toggleChart :: "AppState \<Rightarrow> AppState" where
  "toggleChart s = s\<lparr>showChart := \<not> showChart s\<rparr>"

section \<open>The backend collaborator\<close>

record MapBounds =
  north :: real
  south :: real
  east :: real
  west :: real

record ChatRequest =
  query :: string
  context_q :: "json option"
  map_bounds :: "MapBounds option"

text \<open>A layer as the backend sends it; only these four fields are read.\<close>

record WireLayer =
  id_w :: string
  type_w :: string
  source_w :: json
  paint_w :: "json option"

record ChatResponse =
  message :: string
  map_layers :: "WireLayer list option"
  map_action :: "MapActionDescriptor option"
  code_r :: "string option"
  data_r :: "json option"
  visualization :: "json option"
  chart_r :: "ChartData option"
  animation :: "json option"
  status :: string

text \<open>A thrown JavaScript value; the handlers only log it.\<close>

datatype js_error = JsError string

text \<open>
  How a statement block completes: normally, or by an exception that leaves the block;
  both carry the state of the store at that moment, since the store outlives the call.
\<close>

datatype ('e, 's) completion = Normal 's | Throws 'e 's

fun state_of :: "('e, 's) completion \<Rightarrow> 's" where
  "state_of (Normal s) = s"
| "state_of (Throws e s) = s"

fun is_normal :: "('e, 's) completion \<Rightarrow> bool" where
  "is_normal (Normal s) = True"
| "is_normal (Throws e s) = False"

text \<open>
  \<^verbatim>\<open>try { body } catch (e) { handler } finally { fin }\<close>: the handler runs on what the
  body throws, and \<open>fin\<close> runs on every path, also when the handler itself throws.
\<close>

definition try_catch_finally ::
  "('s \<Rightarrow> ('e, 's) completion) \<Rightarrow> ('e \<Rightarrow> 's \<Rightarrow> ('e, 's) completion) \<Rightarrow> ('s \<Rightarrow> 's) \<Rightarrow>
   's \<Rightarrow> ('e, 's) completion" where
  "try_catch_finally body handler fin s =
     (case body s of
        Normal s1 \<Rightarrow> Normal (fin s1)
      | Throws e s1 \<Rightarrow>
          (case handler e s1 of
             Normal s2 \<Rightarrow> Normal (fin s2)
           | Throws e' s2 \<Rightarrow> Throws e' (fin s2)))"

text \<open>What \<^verbatim>\<open>api.post('/api/chat', request)\<close> settles to: the body of a 2xx response, or a rejection.\<close>

datatype post_outcome = PostResolved ChatResponse | PostRejected js_error

definition fallback_message :: "string \<Rightarrow> string" where
  \<open>fallback_message q =
     ''I received your query: '' @ [CHR 0x22] @ q @ [CHR 0x22] @
     ''. The backend server might not be running. Please start the backend with: '' @
     [CHR 0x60] @ ''cd backend && python main.py'' @ [CHR 0x60]\<close>

text \<open>\<^verbatim>\<open>geoApi.chat\<close> catches the rejection of the transport and answers in its place.\<close>

definition geoApi_chat :: "ChatRequest \<Rightarrow> post_outcome \<Rightarrow> ChatResponse" where
  "geoApi_chat request outcome =
     (case outcome of
        PostResolved d \<Rightarrow> d
      | PostRejected e \<Rightarrow>
          \<lparr>message = fallback_message (query request), map_layers = None, map_action = None,
           code_r = None, data_r = None, visualization = None, chart_r = None,
           animation = None, status = ''error''\<rparr>)"

section \<open>The chat dispatcher\<close>

text \<open>
  What \<^verbatim>\<open>await geoApi.chat({ query })\<close> gives \<^verbatim>\<open>sendMessage\<close>: a response, or an
  exception. \<open>ChatRejected\<close> also stands for an exception raised while the fields of an
  ill-typed response are read, which happens before the first write of the \<^verbatim>\<open>try\<close> block.
\<close>

datatype chat_outcome = ChatResolved ChatResponse | ChatRejected js_error

definition layer_of_wire :: "WireLayer \<Rightarrow> MapLayer" where
  "layer_of_wire w =
     \<lparr>id_l = id_w w, name_l = id_w w, type_l = type_w w, visible = True, opacity = 1,
      source = source_w w, paint = paint_w w, deckLayer = None\<rparr>"

definition failed_content :: string where
  \<open>failed_content =
     [CHR 0xE2, CHR 0x9D, CHR 0x8C] @
     '' Failed to process request. Please try again.''\<close>

text \<open>
  The part of \<^verbatim>\<open>sendMessage\<close> before the \<^verbatim>\<open>await\<close>. The pairs \<open>c1\<close>, \<open>c2\<close> are the two
  clock readings of the \<^verbatim>\<open>addMessage\<close> calls.
\<close>

definition sendMessage_begin :: "nat \<times> nat \<Rightarrow> string \<Rightarrow> AppState \<Rightarrow> AppState" where
  "sendMessage_begin c1 q s =
     setLoading True
       (addMessage (fst c1) (snd c1)
          \<lparr>role = User, content = q, code = None, mapLayers = None, data_m = None,
           chart = None, mapAction = None\<rparr> s)"

definition apply_map_layers :: "WireLayer list option \<Rightarrow> AppState \<Rightarrow> AppState" where
  "apply_map_layers ls s =
     (case ls of
        None \<Rightarrow> s
      | Some ws \<Rightarrow> foldl (\<lambda>st w. addLayer (layer_of_wire w) st) (clearLayers s) ws)"

definition apply_chart :: "ChartData option \<Rightarrow> AppState \<Rightarrow> AppState" where
  "apply_chart c s = (case c of None \<Rightarrow> s | Some ch \<Rightarrow> setChart (Some ch) s)"

definition apply_map_action :: "MapActionDescriptor option \<Rightarrow> AppState \<Rightarrow> AppState" where
  "apply_map_action a s = (case a of None \<Rightarrow> s | Some act \<Rightarrow> setMapAction (Some act) s)"

definition apply_response :: "nat \<times> nat \<Rightarrow> ChatResponse \<Rightarrow> AppState \<Rightarrow> AppState" where
  "apply_response c2 response s =
     apply_map_action (map_action response)
       (apply_chart (chart_r response)
          (apply_map_layers (map_layers response)
             (addMessage (fst c2) (snd c2)
                \<lparr>role = Assistant, content = message response, code = None,
                 mapLayers = map_option (map layer_of_wire) (map_layers response),
                 data_m = None, chart = chart_r response,
                 mapAction = map_action response\<rparr> s)))"

definition sendMessage_try ::
  "nat \<times> nat \<Rightarrow> chat_outcome \<Rightarrow> AppState \<Rightarrow> (js_error, AppState) completion" where
  "sendMessage_try c2 outcome s =
     (case outcome of
        ChatRejected e \<Rightarrow> Throws e s
      | ChatResolved response \<Rightarrow> Normal (apply_response c2 response s))"

definition sendMessage_catch ::
  "nat \<times> nat \<Rightarrow> js_error \<Rightarrow> AppState \<Rightarrow> (js_error, AppState) completion" where
  "sendMessage_catch c2 e s =
     Normal (addMessage (fst c2) (snd c2)
       \<lparr>role = Assistant, content = failed_content, code = None, mapLayers = None,
        data_m = None, chart = None, mapAction = None\<rparr> s)"

text \<open>
  The part of \<^verbatim>\<open>sendMessage\<close> from the moment the \<^verbatim>\<open>await\<close> settles. Other actions of
  the store may have run in between, so it starts from any state.
\<close>

definition sendMessage_settle ::
  "nat \<times> nat \<Rightarrow> chat_outcome \<Rightarrow> AppState \<Rightarrow> (js_error, AppState) completion" where
  "sendMessage_settle c2 outcome s =
     try_catch_finally (sendMessage_try c2 outcome) (sendMessage_catch c2) (setLoading False) s"

text \<open>A call of \<^verbatim>\<open>sendMessage\<close> that nothing interleaves with.\<close>

definition sendMessage ::
  "nat \<times> nat \<Rightarrow> nat \<times> nat \<Rightarrow> string \<Rightarrow> chat_outcome \<Rightarrow> AppState \<Rightarrow>
   (js_error, AppState) completion" where
  "sendMessage c1 c2 q outcome s = sendMessage_settle c2 outcome (sendMessage_begin c1 q s)"

text \<open>The same call with the real collaborator: \<^verbatim>\<open>geoApi.chat\<close> over the transport.\<close>

definition sendMessage_via_api ::
  "nat \<times> nat \<Rightarrow> nat \<times> nat \<Rightarrow> string \<Rightarrow> post_outcome \<Rightarrow> AppState \<Rightarrow>
   (js_error, AppState) completion" where
  "sendMessage_via_api c1 c2 q post s =
     sendMessage c1 c2 q
       (ChatResolved (geoApi_chat \<lparr>query = q, context_q = None, map_bounds = None\<rparr> post)) s"

section \<open>Sequences of store operations\<close>

datatype store_op =
    SetViewState PartialViewState
  | AddLayer MapLayer
  | RemoveLayer string
  | ClearLayers
  | ToggleLayerVisibility string
  | SetLayerOpacity string real
  | SetBasemap string
  | Toggle3D
  | SetMapAction "MapActionDescriptor option"
  | ClearMapAction
  | AddMessage nat nat MessageDraft
  | ClearMessages nat
  | SetLoading bool
  | SetChart "ChartData option"
  | SendMessage "nat \<times> nat" "nat \<times> nat" string chat_outcome
  | SendMessageBegin "nat \<times> nat" string
  | SendMessageSettle "nat \<times> nat" chat_outcome
  | ToggleSidebar
  | SetActivePanel Panel
  | ToggleCode
  | ToggleChart

fun exec :: "store_op \<Rightarrow> AppState \<Rightarrow> AppState" where
  "exec (SetViewState p) s = setViewState p s"
| "exec (AddLayer l) s = addLayer l s"
| "exec (RemoveLayer i) s = removeLayer i s"
| "exec ClearLayers s = clearLayers s"
| "exec (ToggleLayerVisibility i) s = toggleLayerVisibility i s"
| "exec (SetLayerOpacity i v) s = setLayerOpacity i v s"
| "exec (SetBasemap b) s = setBasemap b s"
| "exec Toggle3D s = toggle3D s"
| "exec (SetMapAction a) s = setMapAction a s"
| "exec ClearMapAction s = clearMapAction s"
| "exec (AddMessage now date m) s = addMessage now date m s"
| "exec (ClearMessages date) s = clearMessages date s"
| "exec (SetLoading b) s = setLoading b s"
| "exec (SetChart c) s = setChart c s"
| "exec (SendMessage c1 c2 q outcome) s = state_of (sendMessage c1 c2 q outcome s)"
| "exec (SendMessageBegin c1 q) s = sendMessage_begin c1 q s"
| "exec (SendMessageSettle c2 outcome) s = state_of (sendMessage_settle c2 outcome s)"
| "exec ToggleSidebar s = toggleSidebar s"
| "exec (SetActivePanel p) s = setActivePanel p s"
| "exec ToggleCode s = toggleCode s"
| "exec ToggleChart s = toggleChart s"

definition run :: "store_op list \<Rightarrow> AppState \<Rightarrow> AppState" where
  "run ops s = foldl (\<lambda>st op. exec op st) s ops"

definition layer_ids :: "AppState \<Rightarrow> string list" where
  "layer_ids s = map id_l (layers s)"

section \<open>The map surface and the pending map action\<close>

text \<open>
  The commands \<^verbatim>\<open>MapView\<close> issues to the map engine: \<^verbatim>\<open>map.flyTo(options)\<close> and
  \<^verbatim>\<open>map.fitBounds(bounds, options)\<close>.
\<close>

record FlyToOptions =
  center_f :: "(real \<times> real) option"
  zoom_f :: real
  pitch_f :: real
  bearing_f :: real
  duration_f :: real

record FitBoundsOptions =
  padding :: real
  duration_b :: real

datatype CameraCommand =
    FlyTo FlyToOptions
  | FitBounds "(real \<times> real) \<times> (real \<times> real)" FitBoundsOptions

text \<open>
  The surface: the store it observes, whether \<^verbatim>\<open>mapRef.current\<close> is set, the commands the
  engine has carried out so far, and the subscription of the effect. A subscription made
  with a selector remembers the slice it saw last (\<^verbatim>\<open>currentSlice\<close> in zustand's
  \<^verbatim>\<open>subscribeWithSelector\<close>); \<open>None\<close> is no subscription.
\<close>

record MapSurface =
  store :: AppState
  mapReady :: bool
  engine :: "CameraCommand list"
  subscription :: "MapActionDescriptor option option"

text \<open>
  The map engine is a library outside the repository, and a call of it may throw (it
  refuses a latitude outside the range it accepts, for one). What the engine answers to a
  command is therefore a parameter \<open>eng\<close>: \<open>None\<close> when it carries the command out,
  the exception when it throws.
\<close>

definition issue ::
  "(CameraCommand \<Rightarrow> js_error option) \<Rightarrow> CameraCommand \<Rightarrow> MapSurface \<Rightarrow>
   (js_error, MapSurface) completion" where
  "issue eng c m =
     (case eng c of
        None \<Rightarrow> Normal (m\<lparr>engine := engine m @ [c]\<rparr>)
      | Some e \<Rightarrow> Throws e m)"

text \<open>\<^verbatim>\<open>x || d\<close> on an optional number: \<open>undefined\<close> and \<open>0\<close> are both falsy.\<close>

definition or_default :: "real option \<Rightarrow> real \<Rightarrow> real" where
  "or_default x d = (case x of None \<Rightarrow> d | Some v \<Rightarrow> if v = 0 then d else v)"

definition handleMapAction ::
  "(CameraCommand \<Rightarrow> js_error option) \<Rightarrow> MapActionDescriptor option \<Rightarrow> MapSurface \<Rightarrow>
   (js_error, MapSurface) completion" where
  "handleMapAction eng action m =
     (if mapReady m then
        (case action of
           None \<Rightarrow> Normal m
         | Some a \<Rightarrow>
             if type_a a = ''flyTo'' then
               issue eng
                 (FlyTo \<lparr>center_f = center a,
                         zoom_f = or_default (zoom_a a) 12,
                         pitch_f = or_default (pitch_a a) 0,
                         bearing_f = or_default (bearing_a a) 0,
                         duration_f = or_default (duration a) 2000\<rparr>) m
             else if type_a a = ''fitBounds'' then
               (case bounds a of
                  None \<Rightarrow> Normal m
                | Some b \<Rightarrow> issue eng (FitBounds b \<lparr>padding = 50, duration_b = 2000\<rparr>) m)
             else Normal m)
      else Normal m)"

text \<open>\<^verbatim>\<open>Object.is\<close> on the slot: \<^verbatim>\<open>null\<close> is itself, and an object is itself only.\<close>

definition object_is :: "MapActionDescriptor option \<Rightarrow> MapActionDescriptor option \<Rightarrow> bool" where
  "object_is x y =
     (case x of
        None \<Rightarrow> (case y of None \<Rightarrow> True | Some b \<Rightarrow> False)
      | Some a \<Rightarrow> (case y of None \<Rightarrow> False | Some b \<Rightarrow> ref_a a = ref_a b))"

text \<open>
  The listener the effect registers, as zustand runs it after every write of the store:
  it compares the slice it saw last with \<^verbatim>\<open>state.pendingMapAction\<close>, and when they differ
  it remembers the new slice and calls the callback. The callback handles an action that
  is set and then calls \<^verbatim>\<open>clearMapAction\<close>, a write of the store that runs the listener
  again from inside. Nothing catches an exception of the handler: it leaves the callback
  before \<^verbatim>\<open>clearMapAction\<close> and then the listener.
\<close>

function notify ::
  "(CameraCommand \<Rightarrow> js_error option) \<Rightarrow> MapSurface \<Rightarrow> (js_error, MapSurface) completion" where
  "notify eng m =
     (case subscription m of
        None \<Rightarrow> Normal m
      | Some cur \<Rightarrow>
          if object_is cur (pendingMapAction (store m)) then Normal m
          else
            (case pendingMapAction (store m) of
               None \<Rightarrow> Normal (m\<lparr>subscription := Some None\<rparr>)
             | Some a \<Rightarrow>
                 (case handleMapAction eng (Some a) (m\<lparr>subscription := Some (Some a)\<rparr>) of
                    Throws e m1 \<Rightarrow> Throws e m1
                  | Normal m1 \<Rightarrow> notify eng (m1\<lparr>store := clearMapAction (store m1)\<rparr>))))"
  by pat_completeness auto
termination
  by (relation "measure (\<lambda>(eng, m). if pendingMapAction (store m) = None then 0 else 1)")
     (auto simp: clearMapAction_def)

declare notify.simps [simp del]

text \<open>
  A write of the store (\<^verbatim>\<open>set\<close>): the state is replaced, then the listeners run; an
  exception of a listener leaves the write with the state replaced.
\<close>

definition dispatch ::
  "(CameraCommand \<Rightarrow> js_error option) \<Rightarrow> (AppState \<Rightarrow> AppState) \<Rightarrow> MapSurface \<Rightarrow>
   (js_error, MapSurface) completion" where
  "dispatch eng f m = notify eng (m\<lparr>store := f (store m)\<rparr>)"

text \<open>
  \<^verbatim>\<open>useAppStore.subscribe(selector, callback)\<close> without \<^verbatim>\<open>fireImmediately\<close> records the
  current slice and calls nothing; the cleanup of the effect unsubscribes.
\<close>

definition subscribe :: "MapSurface \<Rightarrow> MapSurface" where
  "subscribe m = m\<lparr>subscription := Some (pendingMapAction (store m))\<rparr>"


section \<open>Auxiliary functions on layer lists\<close>

text \<open>
  What \<^verbatim>\<open>addLayer\<close> does to the list, and what the loop of \<^verbatim>\<open>sendMessage\<close> over the
  returned layers computes from the cleared list; both are used to state results only.
\<close>

definition upsert :: "MapLayer \<Rightarrow> MapLayer list \<Rightarrow> MapLayer list" where
  "upsert layer xs = filter (\<lambda>l. id_l l \<noteq> id_l layer) xs @ [layer]"

definition replaced_layers :: "WireLayer list \<Rightarrow> MapLayer list" where
  "replaced_layers ws = foldl (\<lambda>acc w. upsert (layer_of_wire w) acc) [] ws"

section \<open>The messages a call of the dispatcher appends\<close>

text \<open>
  The three messages \<^verbatim>\<open>sendMessage\<close> builds, as \<^verbatim>\<open>addMessage\<close> stores them; they are
  used to state results only.
\<close>

definition user_message :: "nat \<times> nat \<Rightarrow> string \<Rightarrow> ChatMessage" where
  "user_message c1 q =
     \<lparr>role = User, content = q, code = None, mapLayers = None, data_m = None,
      chart = None, mapAction = None, id_m = ''msg-'' @ decimal (fst c1), timestamp = snd c1\<rparr>"

definition assistant_message :: "nat \<times> nat \<Rightarrow> ChatResponse \<Rightarrow> ChatMessage" where
  "assistant_message c2 r =
     \<lparr>role = Assistant, content = message r, code = None,
      mapLayers = map_option (map layer_of_wire) (map_layers r), data_m = None,
      chart = chart_r r, mapAction = map_action r,
      id_m = ''msg-'' @ decimal (fst c2), timestamp = snd c2\<rparr>"

definition failure_message :: "nat \<times> nat \<Rightarrow> ChatMessage" where
  "failure_message c2 =
     \<lparr>role = Assistant, content = failed_content, code = None, mapLayers = None,
      data_m = None, chart = None, mapAction = None,
      id_m = ''msg-'' @ decimal (fst c2), timestamp = snd c2\<rparr>"

section \<open>Values and engines used to state results\<close>


text \<open>
  Two engines for instances: one that carries out every command, and one that throws on a
  \<^verbatim>\<open>flyTo\<close> whose centre has a latitude outside \<open>[-90, 90]\<close>.
\<close>

definition accepting_engine :: "CameraCommand \<Rightarrow> js_error option" where
  "accepting_engine c = None"

fun latitude_checking_engine :: "CameraCommand \<Rightarrow> js_error option" where
  "latitude_checking_engine (FlyTo opts) =
     (case center_f opts of
        None \<Rightarrow> None
      | Some p \<Rightarrow>
          if snd p < - 90 then Some (JsError ''Invalid LngLat latitude value'')
          else if 90 < snd p then Some (JsError ''Invalid LngLat latitude value'')
          else None)"
| "latitude_checking_engine (FitBounds b opts) = None"

text \<open>
  A surface for instances: the map is mounted, the store is in its initial state, the
  engine has received nothing and the effect has not subscribed yet. And three actions as
  a response may carry them, \<open>r\<close> being the identity of the object: a \<open>flyTo\<close> with a
  centre and nothing else, a \<open>fitBounds\<close> with its bounds, and a \<open>fitBounds\<close> without.
\<close>

definition mounted_surface :: MapSurface where
  "mounted_surface =
     \<lparr>store = initial_state 0, mapReady = True, engine = [], subscription = None\<rparr>"

definition flyTo_centre :: "nat \<Rightarrow> real \<times> real \<Rightarrow> MapActionDescriptor" where
  "flyTo_centre r c =
     \<lparr>ref_a = r, type_a = ''flyTo'', center = Some c, zoom_a = None, pitch_a = None,
      bearing_a = None, bounds = None, duration = None\<rparr>"



section \<open>Properties of the layer list\<close>

lemma layers_addLayer:
  "layers (addLayer L s) = filter (\<lambda>l. id_l l \<noteq> id_l L) (layers s) @ [L]"
  by (simp add: addLayer_def)

lemma layer_ids_addLayer:
  "layer_ids (addLayer L s) = filter (\<lambda>i. i \<noteq> id_l L) (layer_ids s) @ [id_l L]"
  by (simp add: layer_ids_def layers_addLayer filter_map comp_def)

lemma layer_ids_removeLayer:
  "layer_ids (removeLayer i s) = filter (\<lambda>j. j \<noteq> i) (layer_ids s)"
  by (simp add: layer_ids_def removeLayer_def filter_map comp_def)

lemma layer_ids_toggleLayerVisibility:
  "layer_ids (toggleLayerVisibility i s) = layer_ids s"
  by (simp add: layer_ids_def toggleLayerVisibility_def comp_def)

lemma layer_ids_setLayerOpacity:
  "layer_ids (setLayerOpacity i v s) = layer_ids s"
  by (simp add: layer_ids_def setLayerOpacity_def comp_def)

lemma distinct_addLayer:
  "distinct (layer_ids s) \<Longrightarrow> distinct (layer_ids (addLayer L s))"
  by (simp add: layer_ids_addLayer)

lemma set_layer_ids_addLayer:
  "set (layer_ids (addLayer L s)) = insert (id_l L) (set (layer_ids s))"
  by (auto simp: layer_ids_addLayer)

lemma run_Nil [simp]: "run [] s = s"
  by (simp add: run_def)

lemma run_Cons [simp]: "run (op # ops) s = run ops (exec op s)"
  by (simp add: run_def)

lemma add_sequence_ids:
  "distinct (layer_ids s) \<Longrightarrow>
     distinct (layer_ids (run (map AddLayer ls) s)) \<and>
     set (layer_ids (run (map AddLayer ls) s)) = set (layer_ids s) \<union> id_l ` set ls"
proof (induction ls arbitrary: s)
  case Nil
  then show ?case by simp
next
  case (Cons l ls)
  have d: "distinct (layer_ids (addLayer l s))"
    using Cons.prems by (rule distinct_addLayer)
  show ?case
    using Cons.IH [OF d] by (auto simp: set_layer_ids_addLayer)
qed

lemma length_layers: "length (layers s) = length (layer_ids s)"
  by (simp add: layer_ids_def)

lemma add_sequence_count:
  assumes "distinct (layer_ids s)"
  shows "length (layers (run (map AddLayer ls) s)) = card (set (layer_ids s) \<union> id_l ` set ls)"
proof -
  from add_sequence_ids [OF assms, of ls]
  have d: "distinct (layer_ids (run (map AddLayer ls) s))"
    and e: "set (layer_ids (run (map AddLayer ls) s)) = set (layer_ids s) \<union> id_l ` set ls"
    by simp_all
  have "length (layer_ids (run (map AddLayer ls) s)) = card (set (layer_ids (run (map AddLayer ls) s)))"
    using d by (simp add: distinct_card)
  then show ?thesis by (simp add: length_layers e)
qed

lemma layer_ids_initial [simp]: "layer_ids (initial_state t0) = []"
  by (simp add: layer_ids_def initial_state_def)

lemma readd_count:
  assumes "distinct (layer_ids s)" and "id_l L \<in> set (layer_ids s)"
  shows "length (layers (addLayer L s)) = length (layers s)"
proof -
  have "length (layers (addLayer L s)) = card (set (layer_ids (addLayer L s)))"
    unfolding length_layers using distinct_addLayer [OF assms(1), of L] by (simp only: distinct_card)
  also have "\<dots> = card (set (layer_ids s))"
    using assms(2) by (simp add: set_layer_ids_addLayer insert_absorb)
  also have "\<dots> = length (layers s)"
    unfolding length_layers using assms(1) by (simp only: distinct_card)
  finally show ?thesis .
qed

text \<open>
  Claim C3. \<^verbatim>\<open>addLayer(L)\<close> removes every layer whose id is that of \<open>L\<close> and appends
  \<open>L\<close> at the tail. Hence the number of layers after any sequence of \<^verbatim>\<open>addLayer\<close> calls
  on the initial store is the number of distinct ids in the sequence; adding, after such
  a sequence, a layer whose id the sequence has keeps the count, and that layer is then
  the last one, with its new content. The same holds from any list with unique ids: the
  count is the number of distinct ids of the list and the sequence together, and adding a
  layer whose id is present keeps the count and puts the layer last, behind the other
  layers in their old order.
\<close>

theorem addLayer_upsert_reorder:
  "layers (addLayer L s) = filter (\<lambda>l. id_l l \<noteq> id_l L) (layers s) @ [L] \<and>
   length (layers (run (map AddLayer ls) (initial_state t0))) = card (id_l ` set ls) \<and>
   (id_l L \<in> id_l ` set ls \<longrightarrow>
      length (layers (addLayer L (run (map AddLayer ls) (initial_state t0))))
        = length (layers (run (map AddLayer ls) (initial_state t0))) \<and>
      last (layers (addLayer L (run (map AddLayer ls) (initial_state t0)))) = L) \<and>
   (distinct (layer_ids s) \<longrightarrow>
      length (layers (run (map AddLayer ls) s)) = card (set (layer_ids s) \<union> id_l ` set ls)) \<and>
   (distinct (layer_ids s) \<and> id_l L \<in> set (layer_ids s) \<longrightarrow>
      length (layers (addLayer L s)) = length (layers s) \<and>
      last (layers (addLayer L s)) = L \<and>
      butlast (layers (addLayer L s)) = filter (\<lambda>l. id_l l \<noteq> id_l L) (layers s))"
proof -
  let ?s0 = "run (map AddLayer ls) (initial_state t0)"
  have count: "length (layers ?s0) = card (id_l ` set ls)"
    using add_sequence_count [of "initial_state t0" ls] by simp
  have d0: "distinct (layer_ids ?s0)" and ids0: "set (layer_ids ?s0) = id_l ` set ls"
    using add_sequence_ids [of "initial_state t0" ls] by simp_all
  have again: "id_l L \<in> id_l ` set ls \<longrightarrow>
      length (layers (addLayer L ?s0)) = length (layers ?s0) \<and> last (layers (addLayer L ?s0)) = L"
    using readd_count [OF d0, of L] by (simp add: ids0 layers_addLayer)
  have tail: "last (layers (addLayer L s)) = L"
    by (simp add: layers_addLayer)
  have front: "butlast (layers (addLayer L s)) = filter (\<lambda>l. id_l l \<noteq> id_l L) (layers s)"
    by (simp add: layers_addLayer)
  show ?thesis
    using count again tail front layers_addLayer [of L s] add_sequence_count [of s ls]
      readd_count [of s L]
    by blast
qed

text \<open>
  An instance: a circle layer \<open>a\<close> is in the store and a line layer with the same id is added.
\<close>

theorem addLayer_upsert_reorder_witness:
  "id_l (layer_of_wire \<lparr>id_w = ''a'', type_w = ''line'', source_w = JNull, paint_w = None\<rparr>)
     \<in> id_l ` set [layer_of_wire \<lparr>id_w = ''a'', type_w = ''circle'', source_w = JNull, paint_w = None\<rparr>] \<and>
   distinct (layer_ids (run (map AddLayer
      [layer_of_wire \<lparr>id_w = ''a'', type_w = ''circle'', source_w = JNull, paint_w = None\<rparr>])
      (initial_state 0))) \<and>
   id_l (layer_of_wire \<lparr>id_w = ''a'', type_w = ''line'', source_w = JNull, paint_w = None\<rparr>)
     \<in> set (layer_ids (run (map AddLayer
      [layer_of_wire \<lparr>id_w = ''a'', type_w = ''circle'', source_w = JNull, paint_w = None\<rparr>])
      (initial_state 0))) \<and>
   length (layers (addLayer (layer_of_wire \<lparr>id_w = ''a'', type_w = ''line'', source_w = JNull, paint_w = None\<rparr>)
      (run (map AddLayer
        [layer_of_wire \<lparr>id_w = ''a'', type_w = ''circle'', source_w = JNull, paint_w = None\<rparr>])
        (initial_state 0)))) = 1 \<and>
   layers (addLayer (layer_of_wire \<lparr>id_w = ''a'', type_w = ''line'', source_w = JNull, paint_w = None\<rparr>)
      (run (map AddLayer
        [layer_of_wire \<lparr>id_w = ''a'', type_w = ''circle'', source_w = JNull, paint_w = None\<rparr>])
        (initial_state 0)))
     = [layer_of_wire \<lparr>id_w = ''a'', type_w = ''line'', source_w = JNull, paint_w = None\<rparr>]"
  using addLayer_upsert_reorder
    [of "layer_of_wire \<lparr>id_w = ''a'', type_w = ''line'', source_w = JNull, paint_w = None\<rparr>"
        "run (map AddLayer
          [layer_of_wire \<lparr>id_w = ''a'', type_w = ''circle'', source_w = JNull, paint_w = None\<rparr>])
          (initial_state 0)"
        "[layer_of_wire \<lparr>id_w = ''a'', type_w = ''circle'', source_w = JNull, paint_w = None\<rparr>]" 0]
  by (simp add: layer_ids_def addLayer_def initial_state_def layer_of_wire_def)

section \<open>Properties of single actions\<close>

text \<open>
  Claim C7. In every state, \<^verbatim>\<open>clearMessages()\<close> leaves exactly one message, its role is
  assistant (so no message has role user), and the current chart is absent.
\<close>

theorem clearMessages_single_assistant:
  "length (messages (clearMessages date s)) = 1 \<and>
   map role (messages (clearMessages date s)) = [Assistant] \<and>
   User \<notin> set (map role (messages (clearMessages date s))) \<and>
   currentChart (clearMessages date s) = None"
  by (simp add: clearMessages_def)

text \<open>
  Claim C8. \<^verbatim>\<open>toggle3D()\<close> flips \<^verbatim>\<open>is3DEnabled\<close>; the pitch after it is 45 when 3D is
  then on and 0 when it is then off, whatever the pitch was. From 3D off and pitch 0 it
  gives 3D on and pitch 45, and a second toggle gives 3D off and pitch 0 again, with
  every other field of the state as it was.
\<close>

theorem toggle3D_couples_pitch:
  "is3DEnabled (toggle3D s) = (\<not> is3DEnabled s) \<and>
   pitch (viewState (toggle3D s)) = (if is3DEnabled (toggle3D s) then 45 else 0) \<and>
   toggle3D (s\<lparr>is3DEnabled := False, viewState := (viewState s)\<lparr>pitch := 0\<rparr>\<rparr>)
     = s\<lparr>is3DEnabled := True, viewState := (viewState s)\<lparr>pitch := 45\<rparr>\<rparr> \<and>
   toggle3D (toggle3D (s\<lparr>is3DEnabled := False, viewState := (viewState s)\<lparr>pitch := 0\<rparr>\<rparr>))
     = s\<lparr>is3DEnabled := False, viewState := (viewState s)\<lparr>pitch := 0\<rparr>\<rparr>"
  by (simp add: toggle3D_def)

lemma toggle_twice_layer:
  "(\<lambda>l. if id_l l = i then l\<lparr>visible := \<not> visible l\<rparr> else l) \<circ>
   (\<lambda>l. if id_l l = i then l\<lparr>visible := \<not> visible l\<rparr> else l) = (\<lambda>l::MapLayer. l)"
  by (rule ext) simp

text \<open>
  Claim C9. \<^verbatim>\<open>toggleLayerVisibility\<close> is self-inverse: in every state and for every id,
  two calls with the same id give back the state they started from, every field of every
  layer included.
\<close>

theorem toggleLayerVisibility_self_inverse:
  "toggleLayerVisibility i (toggleLayerVisibility i s) = s"
  by (simp add: toggleLayerVisibility_def toggle_twice_layer)

lemma absent_id_filter:
  "i \<notin> set (layer_ids s) \<Longrightarrow> filter (\<lambda>l. id_l l \<noteq> i) (layers s) = layers s"
  by (auto simp: layer_ids_def filter_id_conv)

lemma absent_id_map:
  "i \<notin> set (layer_ids s) \<Longrightarrow> map (\<lambda>l. if id_l l = i then f l else l) (layers s) = layers s"
proof -
  assume a: "i \<notin> set (layer_ids s)"
  have "\<And>l. l \<in> set (layers s) \<Longrightarrow> (if id_l l = i then f l else l) = l"
    using a by (auto simp: layer_ids_def)
  then show ?thesis by (rule map_idI)
qed

text \<open>
  Claim C10. For an id that no layer of the list has, \<^verbatim>\<open>removeLayer\<close>,
  \<^verbatim>\<open>toggleLayerVisibility\<close> and \<^verbatim>\<open>setLayerOpacity\<close> each return the state unchanged:
  the layer list and every other field.
\<close>

theorem absent_id_no_op:
  "i \<notin> set (layer_ids s) \<Longrightarrow>
     removeLayer i s = s \<and> toggleLayerVisibility i s = s \<and> setLayerOpacity i v s = s"
  by (simp add: removeLayer_def toggleLayerVisibility_def setLayerOpacity_def
      absent_id_filter absent_id_map)

text \<open>An instance: the store holds one layer \<open>a\<close>, and the id is \<open>b\<close>.\<close>

theorem absent_id_no_op_witness:
  "''b'' \<notin> set (layer_ids (addLayer (layer_of_wire \<lparr>id_w = ''a'', type_w = ''circle'', source_w = JNull, paint_w = None\<rparr>) (initial_state 0))) \<and>
   removeLayer ''b'' (addLayer (layer_of_wire \<lparr>id_w = ''a'', type_w = ''circle'', source_w = JNull, paint_w = None\<rparr>) (initial_state 0))
     = addLayer (layer_of_wire \<lparr>id_w = ''a'', type_w = ''circle'', source_w = JNull, paint_w = None\<rparr>) (initial_state 0) \<and>
   toggleLayerVisibility ''b'' (addLayer (layer_of_wire \<lparr>id_w = ''a'', type_w = ''circle'', source_w = JNull, paint_w = None\<rparr>) (initial_state 0))
     = addLayer (layer_of_wire \<lparr>id_w = ''a'', type_w = ''circle'', source_w = JNull, paint_w = None\<rparr>) (initial_state 0) \<and>
   setLayerOpacity ''b'' (1 / 2) (addLayer (layer_of_wire \<lparr>id_w = ''a'', type_w = ''circle'', source_w = JNull, paint_w = None\<rparr>) (initial_state 0))
     = addLayer (layer_of_wire \<lparr>id_w = ''a'', type_w = ''circle'', source_w = JNull, paint_w = None\<rparr>) (initial_state 0)"
proof -
  have h: "''b'' \<notin> set (layer_ids (addLayer (layer_of_wire \<lparr>id_w = ''a'', type_w = ''circle'', source_w = JNull, paint_w = None\<rparr>) (initial_state 0)))"
    by (simp add: layer_ids_def addLayer_def initial_state_def layer_of_wire_def)
  show ?thesis
    using h absent_id_no_op [OF h, of "1 / 2"] by simp
qed


section \<open>Properties of the chat dispatcher\<close>

lemma foldl_addLayer_state:
  "foldl (\<lambda>st w. addLayer (layer_of_wire w) st) s ws =
     s\<lparr>layers := foldl (\<lambda>acc w. upsert (layer_of_wire w) acc) (layers s) ws\<rparr>"
proof (induction ws arbitrary: s)
  case Nil
  show ?case by simp
next
  case (Cons w ws)
  show ?case
    by (simp add: Cons.IH [of "addLayer (layer_of_wire w) s"]) (simp add: addLayer_def upsert_def)
qed

lemma apply_map_layers_state:
  "apply_map_layers ls s =
     s\<lparr>layers := (case ls of None \<Rightarrow> layers s | Some ws \<Rightarrow> replaced_layers ws)\<rparr>"
  by (cases ls) (simp_all add: apply_map_layers_def foldl_addLayer_state clearLayers_def replaced_layers_def)

lemma apply_response_state:
  "apply_response c2 r s =
     s\<lparr>messages := messages s @ [assistant_message c2 r],
       layers := (case map_layers r of None \<Rightarrow> layers s | Some ws \<Rightarrow> replaced_layers ws),
       currentChart := (case chart_r r of None \<Rightarrow> currentChart s | Some c \<Rightarrow> Some c),
       pendingMapAction := (case map_action r of None \<Rightarrow> pendingMapAction s | Some a \<Rightarrow> Some a)\<rparr>"
  by (cases "chart_r r"; cases "map_action r"; cases "map_layers r")
     (simp_all add: apply_response_def apply_map_action_def apply_chart_def apply_map_layers_state
        addMessage_def setChart_def setMapAction_def assistant_message_def)

lemma finally_clears_loading:
  "\<not> isLoading (state_of (try_catch_finally body handler (setLoading False) s))"
  by (simp add: try_catch_finally_def setLoading_def split: completion.splits)

lemma settle_resolved:
  "sendMessage_settle c2 (ChatResolved r) s = Normal (setLoading False (apply_response c2 r s))"
  by (simp add: sendMessage_settle_def try_catch_finally_def sendMessage_try_def)

lemma settle_rejected:
  "sendMessage_settle c2 (ChatRejected e) s =
     Normal (setLoading False (addMessage (fst c2) (snd c2)
       \<lparr>role = Assistant, content = failed_content, code = None, mapLayers = None,
        data_m = None, chart = None, mapAction = None\<rparr> s))"
  by (simp add: sendMessage_settle_def try_catch_finally_def sendMessage_try_def sendMessage_catch_def)

lemma layers_settle:
  "layers (state_of (sendMessage_settle c2 outcome s)) =
     (case outcome of
        ChatRejected e \<Rightarrow> layers s
      | ChatResolved r \<Rightarrow> (case map_layers r of None \<Rightarrow> layers s | Some ws \<Rightarrow> replaced_layers ws))"
  by (cases outcome)
     (simp_all add: settle_resolved settle_rejected apply_response_state setLoading_def addMessage_def)

lemma layers_begin: "layers (sendMessage_begin c1 q s) = layers s"
  by (simp add: sendMessage_begin_def setLoading_def addMessage_def)

text \<open>
  Claim C1. For every query and every outcome of the collaborator call (a response, with
  any status, or an exception), the store's \<^verbatim>\<open>isLoading\<close> is false in the state a call of
  \<^verbatim>\<open>sendMessage\<close> leaves when it has settled: for a call nothing interleaves with, for
  the part after the \<^verbatim>\<open>await\<close> started from any state, and for the call over the real
  \<^verbatim>\<open>geoApi.chat\<close> with any outcome of the transport.
\<close>

theorem sendMessage_clears_loading:
  "\<not> isLoading (state_of (sendMessage c1 c2 q outcome s)) \<and>
   \<not> isLoading (state_of (sendMessage_settle c2 outcome s)) \<and>
   \<not> isLoading (state_of (sendMessage_via_api c1 c2 q post s))"
  by (simp add: sendMessage_via_api_def sendMessage_def sendMessage_settle_def finally_clears_loading)

section \<open>Uniqueness of layer ids\<close>

lemma distinct_upsert:
  "distinct (map id_l xs) \<Longrightarrow> distinct (map id_l (upsert L xs))"
  by (auto simp: upsert_def distinct_map_filter)

lemma distinct_foldl_upsert:
  "distinct (map id_l xs) \<Longrightarrow>
     distinct (map id_l (foldl (\<lambda>acc w. upsert (layer_of_wire w) acc) xs ws))"
  by (induction ws arbitrary: xs) (simp_all add: distinct_upsert)

lemma distinct_replaced_layers: "distinct (map id_l (replaced_layers ws))"
  by (simp add: replaced_layers_def distinct_foldl_upsert)

lemma distinct_settle:
  "distinct (layer_ids s) \<Longrightarrow> distinct (layer_ids (state_of (sendMessage_settle c2 outcome s)))"
  by (simp add: layer_ids_def layers_settle distinct_replaced_layers
      split: chat_outcome.splits option.splits)

lemma exec_keeps_ids_unique:
  "distinct (layer_ids s) \<Longrightarrow> distinct (layer_ids (exec op s))"
proof (cases op)
  case (AddLayer l)
  assume "distinct (layer_ids s)"
  then show ?thesis using AddLayer by (simp add: distinct_addLayer)
next
  case (RemoveLayer i)
  assume "distinct (layer_ids s)"
  then show ?thesis using RemoveLayer by (simp add: layer_ids_removeLayer)
next
  case (ToggleLayerVisibility i)
  assume "distinct (layer_ids s)"
  then show ?thesis using ToggleLayerVisibility by (simp add: layer_ids_toggleLayerVisibility)
next
  case (SetLayerOpacity i v)
  assume "distinct (layer_ids s)"
  then show ?thesis using SetLayerOpacity by (simp add: layer_ids_setLayerOpacity)
next
  case (SendMessage c1 c2 q outcome)
  assume "distinct (layer_ids s)"
  then have "distinct (layer_ids (sendMessage_begin c1 q s))"
    by (simp add: layer_ids_def layers_begin)
  then show ?thesis using SendMessage by (simp add: sendMessage_def distinct_settle)
next
  case (SendMessageSettle c2 outcome)
  assume "distinct (layer_ids s)"
  then show ?thesis using SendMessageSettle by (simp add: distinct_settle)
next
  case (SendMessageBegin c1 q)
  assume "distinct (layer_ids s)"
  then show ?thesis using SendMessageBegin by (simp add: layer_ids_def layers_begin)
qed (simp_all add: layer_ids_def setViewState_def clearLayers_def setBasemap_def toggle3D_def
      setMapAction_def clearMapAction_def addMessage_def clearMessages_def setLoading_def
      setChart_def toggleSidebar_def setActivePanel_def toggleCode_def toggleChart_def)

lemma run_keeps_ids_unique:
  "distinct (layer_ids s) \<Longrightarrow> distinct (layer_ids (run ops s))"
  by (induction ops arbitrary: s) (simp_all add: exec_keeps_ids_unique)

text \<open>
  Claim C6. Layer ids are unique in the layer list of every state that a sequence of
  store operations reaches from the initial state: every action of the store, whole
  \<^verbatim>\<open>sendMessage\<close> calls and their two halves interleaved with other operations, with any
  response, also one whose layers repeat an id.
\<close>

theorem layer_ids_unique_reachable:
  "distinct (layer_ids (run ops (initial_state t0)))"
  by (rule run_keeps_ids_unique) simp

text \<open>An instance of the invariant: a response with two layers of the same id.\<close>

theorem layer_ids_unique_reachable_witness:
  "distinct (layer_ids (run
     [AddLayer (layer_of_wire \<lparr>id_w = ''x'', type_w = ''circle'', source_w = JNull, paint_w = None\<rparr>),
      SendMessage (0, 0) (1, 1) ''show''
        (ChatResolved
           \<lparr>message = ''ok'',
            map_layers = Some
              [\<lparr>id_w = ''a'', type_w = ''circle'', source_w = JNull, paint_w = None\<rparr>,
               \<lparr>id_w = ''a'', type_w = ''line'', source_w = JNull, paint_w = None\<rparr>],
            map_action = None, code_r = None, data_r = None, visualization = None,
            chart_r = None, animation = None, status = ''success''\<rparr>)]
     (initial_state 0)))"
  by (rule layer_ids_unique_reachable)

section \<open>What a call of the dispatcher leaves\<close>

lemma begin_state:
  "sendMessage_begin c1 q s = s\<lparr>messages := messages s @ [user_message c1 q], isLoading := True\<rparr>"
  by (simp add: sendMessage_begin_def setLoading_def addMessage_def user_message_def)

lemma settle_rejected_state:
  "sendMessage_settle c2 (ChatRejected e) s =
     Normal (s\<lparr>messages := messages s @ [failure_message c2], isLoading := False\<rparr>)"
  by (simp add: settle_rejected setLoading_def addMessage_def failure_message_def)

lemma settle_resolved_state:
  "sendMessage_settle c2 (ChatResolved r) s =
     Normal (s\<lparr>messages := messages s @ [assistant_message c2 r],
       layers := (case map_layers r of None \<Rightarrow> layers s | Some ws \<Rightarrow> replaced_layers ws),
       currentChart := (case chart_r r of None \<Rightarrow> currentChart s | Some c \<Rightarrow> Some c),
       pendingMapAction := (case map_action r of None \<Rightarrow> pendingMapAction s | Some a \<Rightarrow> Some a),
       isLoading := False\<rparr>)"
  by (simp add: settle_resolved setLoading_def apply_response_state)

lemma foldl_upsert_distinct:
  "distinct (map id_w ws) \<Longrightarrow> set (map id_l xs) \<inter> set (map id_w ws) = {} \<Longrightarrow>
     foldl (\<lambda>acc w. upsert (layer_of_wire w) acc) xs ws = xs @ map layer_of_wire ws"
proof (induction ws arbitrary: xs)
  case Nil
  show ?case by simp
next
  case (Cons w ws)
  have "id_w w \<notin> id_l ` set xs"
    using Cons.prems(2) by auto
  then have absent: "\<And>l. l \<in> set xs \<Longrightarrow> id_l l \<noteq> id_w w"
    by (metis imageI)
  have step: "upsert (layer_of_wire w) xs = xs @ [layer_of_wire w]"
    using absent by (simp add: upsert_def layer_of_wire_def)
  have d: "distinct (map id_w ws)"
    using Cons.prems(1) by simp
  have disj: "set (map id_l (xs @ [layer_of_wire w])) \<inter> set (map id_w ws) = {}"
    using Cons.prems by (auto simp: layer_of_wire_def)
  show ?case
    using Cons.IH [OF d disj] by (simp add: step)
qed

lemma replaced_layers_distinct:
  "distinct (map id_w ws) \<Longrightarrow> replaced_layers ws = map layer_of_wire ws"
  using foldl_upsert_distinct [of ws "[]"] by (simp add: replaced_layers_def)

text \<open>
  Claim C2, amended. When the response has a \<^verbatim>\<open>map_layers\<close> field, the layer list after
  \<^verbatim>\<open>sendMessage\<close> does not depend on the list before the call: it is the list obtained by
  adding each returned layer, in order, to the empty list. For an empty \<^verbatim>\<open>map_layers\<close>
  that is the empty list, and for returned layers with pairwise distinct ids it is exactly
  the returned layers, each with \<^verbatim>\<open>name\<close> its id, visible and of opacity 1.
\<close>

theorem sendMessage_replaces_layers:
  "map_layers r = Some ws \<Longrightarrow>
     layers (state_of (sendMessage c1 c2 q (ChatResolved r) s)) = replaced_layers ws \<and>
     layers (state_of (sendMessage_settle c2 (ChatResolved r) s)) = replaced_layers ws \<and>
     replaced_layers [] = [] \<and>
     (distinct (map id_w ws) \<longrightarrow> replaced_layers ws = map layer_of_wire ws)"
proof -
  assume r: "map_layers r = Some ws"
  have empty: "replaced_layers [] = []"
    by (simp add: replaced_layers_def)
  show ?thesis
    using r empty by (simp add: sendMessage_def layers_settle replaced_layers_distinct)
qed

text \<open>
  Claim C2 as stated fails when the response repeats an id: of two returned layers with
  id \<open>a\<close>, only the second is in the list after the call.
\<close>

theorem sendMessage_duplicate_ids_counterexample:
  "layers (state_of (sendMessage (0, 0) (1, 1) ''show''
      (ChatResolved
         \<lparr>message = ''ok'',
          map_layers = Some
            [\<lparr>id_w = ''a'', type_w = ''circle'', source_w = JNull, paint_w = None\<rparr>,
             \<lparr>id_w = ''a'', type_w = ''line'', source_w = JNull, paint_w = None\<rparr>],
          map_action = None, code_r = None, data_r = None, visualization = None,
          chart_r = None, animation = None, status = ''success''\<rparr>)
      (initial_state 0)))
     = [layer_of_wire \<lparr>id_w = ''a'', type_w = ''line'', source_w = JNull, paint_w = None\<rparr>] \<and>
   layers (state_of (sendMessage (0, 0) (1, 1) ''show''
      (ChatResolved
         \<lparr>message = ''ok'',
          map_layers = Some
            [\<lparr>id_w = ''a'', type_w = ''circle'', source_w = JNull, paint_w = None\<rparr>,
             \<lparr>id_w = ''a'', type_w = ''line'', source_w = JNull, paint_w = None\<rparr>],
          map_action = None, code_r = None, data_r = None, visualization = None,
          chart_r = None, animation = None, status = ''success''\<rparr>)
      (initial_state 0)))
     \<noteq> map layer_of_wire
          [\<lparr>id_w = ''a'', type_w = ''circle'', source_w = JNull, paint_w = None\<rparr>,
           \<lparr>id_w = ''a'', type_w = ''line'', source_w = JNull, paint_w = None\<rparr>]"
  by (simp add: sendMessage_def layers_settle replaced_layers_def upsert_def layer_of_wire_def)

text \<open>
  Two instances: two layers are in the store and the response has an empty layer list;
  one layer is in the store and the response has two layers with distinct ids.
\<close>

theorem sendMessage_replaces_layers_witness:
  "layers (state_of (sendMessage (0, 0) (1, 1) ''clear''
      (ChatResolved
         \<lparr>message = ''ok'', map_layers = Some [],
          map_action = None, code_r = None, data_r = None, visualization = None,
          chart_r = None, animation = None, status = ''success''\<rparr>)
      (addLayer (layer_of_wire \<lparr>id_w = ''y'', type_w = ''line'', source_w = JNull, paint_w = None\<rparr>)
        (addLayer (layer_of_wire \<lparr>id_w = ''x'', type_w = ''circle'', source_w = JNull, paint_w = None\<rparr>)
          (initial_state 0))))) = [] \<and>
   distinct (map id_w
      [\<lparr>id_w = ''a'', type_w = ''circle'', source_w = JNull, paint_w = None\<rparr>,
       \<lparr>id_w = ''b'', type_w = ''line'', source_w = JNull, paint_w = None\<rparr>]) \<and>
   layers (state_of (sendMessage (0, 0) (1, 1) ''show''
      (ChatResolved
         \<lparr>message = ''ok'',
          map_layers = Some
            [\<lparr>id_w = ''a'', type_w = ''circle'', source_w = JNull, paint_w = None\<rparr>,
             \<lparr>id_w = ''b'', type_w = ''line'', source_w = JNull, paint_w = None\<rparr>],
          map_action = None, code_r = None, data_r = None, visualization = None,
          chart_r = None, animation = None, status = ''success''\<rparr>)
      (addLayer (layer_of_wire \<lparr>id_w = ''x'', type_w = ''circle'', source_w = JNull, paint_w = None\<rparr>)
          (initial_state 0))))
     = map layer_of_wire
         [\<lparr>id_w = ''a'', type_w = ''circle'', source_w = JNull, paint_w = None\<rparr>,
          \<lparr>id_w = ''b'', type_w = ''line'', source_w = JNull, paint_w = None\<rparr>]"
  using
    sendMessage_replaces_layers
      [of "\<lparr>message = ''ok'', map_layers = Some [],
          map_action = None, code_r = None, data_r = None, visualization = None,
          chart_r = None, animation = None, status = ''success''\<rparr>"
          "[]" "(0, 0)" "(1, 1)" "''clear''"
          "addLayer (layer_of_wire \<lparr>id_w = ''y'', type_w = ''line'', source_w = JNull, paint_w = None\<rparr>)
        (addLayer (layer_of_wire \<lparr>id_w = ''x'', type_w = ''circle'', source_w = JNull, paint_w = None\<rparr>)
          (initial_state 0))"]
    sendMessage_replaces_layers
      [of "\<lparr>message = ''ok'',
          map_layers = Some
            [\<lparr>id_w = ''a'', type_w = ''circle'', source_w = JNull, paint_w = None\<rparr>,
             \<lparr>id_w = ''b'', type_w = ''line'', source_w = JNull, paint_w = None\<rparr>],
          map_action = None, code_r = None, data_r = None, visualization = None,
          chart_r = None, animation = None, status = ''success''\<rparr>"
          "[\<lparr>id_w = ''a'', type_w = ''circle'', source_w = JNull, paint_w = None\<rparr>,
             \<lparr>id_w = ''b'', type_w = ''line'', source_w = JNull, paint_w = None\<rparr>]"
          "(0, 0)" "(1, 1)" "''show''"
          "addLayer (layer_of_wire \<lparr>id_w = ''x'', type_w = ''circle'', source_w = JNull, paint_w = None\<rparr>)
          (initial_state 0)"]
  by simp

text \<open>
  Claim C5. When the transport fails, \<^verbatim>\<open>geoApi.chat\<close> answers with a message of its own
  and status \<open>error\<close>, and \<^verbatim>\<open>sendMessage\<close> completes normally from every state: the chat
  log grows by the user message and one assistant message, whose content is that failure
  message, and the layer list and the chart are what they were before the call. The same
  holds when the collaborator call itself throws: the one assistant message is then the
  fixed failure text of the \<^verbatim>\<open>catch\<close> block.
\<close>

theorem transport_failure_handled:
  "is_normal (sendMessage_via_api c1 c2 q (PostRejected e) s) \<and>
   status (geoApi_chat req (PostRejected e)) = ''error'' \<and>
   message (geoApi_chat req (PostRejected e)) = fallback_message (query req) \<and>
   messages (state_of (sendMessage_via_api c1 c2 q (PostRejected e) s)) =
     messages s @
       [user_message c1 q,
        assistant_message c2 (geoApi_chat \<lparr>query = q, context_q = None, map_bounds = None\<rparr> (PostRejected e))] \<and>
   content (assistant_message c2 (geoApi_chat \<lparr>query = q, context_q = None, map_bounds = None\<rparr> (PostRejected e)))
     = fallback_message q \<and>
   layers (state_of (sendMessage_via_api c1 c2 q (PostRejected e) s)) = layers s \<and>
   currentChart (state_of (sendMessage_via_api c1 c2 q (PostRejected e) s)) = currentChart s \<and>
   is_normal (sendMessage c1 c2 q (ChatRejected e) s) \<and>
   messages (state_of (sendMessage c1 c2 q (ChatRejected e) s)) =
     messages s @ [user_message c1 q, failure_message c2] \<and>
   layers (state_of (sendMessage c1 c2 q (ChatRejected e) s)) = layers s \<and>
   currentChart (state_of (sendMessage c1 c2 q (ChatRejected e) s)) = currentChart s"
  by (simp add: sendMessage_via_api_def sendMessage_def settle_resolved_state
      settle_rejected_state begin_state geoApi_chat_def assistant_message_def)


section \<open>The pending map action\<close>

lemma handleMapAction_Normal:
  "handleMapAction eng act m = Normal m1 \<Longrightarrow>
     store m1 = store m \<and> subscription m1 = subscription m \<and> mapReady m1 = mapReady m"
  by (auto simp: handleMapAction_def issue_def split: if_splits option.splits)

lemma handleMapAction_subscription:
  "handleMapAction eng act (m\<lparr>subscription := x\<rparr>) =
     (case handleMapAction eng act m of
        Normal m1 \<Rightarrow> Normal (m1\<lparr>subscription := x\<rparr>)
      | Throws e m1 \<Rightarrow> Throws e (m1\<lparr>subscription := x\<rparr>))"
  by (simp add: handleMapAction_def issue_def split: option.splits)

lemma handleMapAction_store:
  "handleMapAction eng act (m\<lparr>store := x\<rparr>) =
     (case handleMapAction eng act m of
        Normal m1 \<Rightarrow> Normal (m1\<lparr>store := x\<rparr>)
      | Throws e m1 \<Rightarrow> Throws e (m1\<lparr>store := x\<rparr>))"
  by (simp add: handleMapAction_def issue_def split: option.splits)



lemma notify_cleared:
  "subscription m = Some (Some a) \<Longrightarrow> pendingMapAction (store m) = None \<Longrightarrow>
     notify eng m = Normal (m\<lparr>subscription := Some None\<rparr>)"
  by (subst notify.simps) (simp add: object_is_def)

lemma notify_handled:
  assumes "subscription m = Some cur"
    and "pendingMapAction (store m) = Some a"
    and "\<not> object_is cur (Some a)"
    and "handleMapAction eng (Some a) m = Normal m1"
  shows "notify eng m =
     Normal (m1\<lparr>store := clearMapAction (store m), subscription := Some None\<rparr>)"
proof -
  let ?m2 = "m1\<lparr>subscription := Some (Some a), store := clearMapAction (store m)\<rparr>"
  have st: "store m1 = store m"
    using assms(4) by (simp add: handleMapAction_Normal)
  have h: "handleMapAction eng (Some a) (m\<lparr>subscription := Some (Some a)\<rparr>)
      = Normal (m1\<lparr>subscription := Some (Some a)\<rparr>)"
    by (simp add: handleMapAction_subscription assms(4))
  have "notify eng m = notify eng ?m2"
    using assms(1-3) by (subst notify.simps) (simp add: h st)
  also have "\<dots> = Normal (?m2\<lparr>subscription := Some None\<rparr>)"
    by (rule notify_cleared [of _ a]) (simp_all add: clearMapAction_def)
  finally show ?thesis by simp
qed

lemma notify_thrown:
  assumes "subscription m = Some cur"
    and "pendingMapAction (store m) = Some a"
    and "\<not> object_is cur (Some a)"
    and "handleMapAction eng (Some a) m = Throws e m1"
  shows "notify eng m = Throws e (m1\<lparr>subscription := Some (Some a)\<rparr>)"
  using assms(1-3) by (subst notify.simps) (simp add: handleMapAction_subscription assms(4))

lemma enqueue_handled:
  assumes "subscription m = Some cur"
    and "\<not> object_is cur (Some a)"
    and "handleMapAction eng (Some a) m = Normal m1"
  shows "dispatch eng (setMapAction (Some a)) m =
     Normal (m1\<lparr>store := clearMapAction (store m), subscription := Some None\<rparr>)"
proof -
  let ?m = "m\<lparr>store := setMapAction (Some a) (store m)\<rparr>"
  have h: "handleMapAction eng (Some a) ?m = Normal (m1\<lparr>store := setMapAction (Some a) (store m)\<rparr>)"
    by (simp add: handleMapAction_store assms(3))
  have "notify eng ?m =
      Normal (m1\<lparr>store := setMapAction (Some a) (store m)\<rparr>
        \<lparr>store := clearMapAction (store ?m), subscription := Some None\<rparr>)"
    using assms(1,2) h by (intro notify_handled [of _ cur]) (simp_all add: setMapAction_def)
  then show ?thesis
    by (simp add: dispatch_def clearMapAction_def setMapAction_def)
qed

lemma enqueue_thrown:
  assumes "subscription m = Some cur"
    and "\<not> object_is cur (Some a)"
    and "handleMapAction eng (Some a) m = Throws e m1"
  shows "dispatch eng (setMapAction (Some a)) m =
     Throws e (m1\<lparr>store := setMapAction (Some a) (store m), subscription := Some (Some a)\<rparr>)"
proof -
  let ?m = "m\<lparr>store := setMapAction (Some a) (store m)\<rparr>"
  have h: "handleMapAction eng (Some a) ?m = Throws e (m1\<lparr>store := setMapAction (Some a) (store m)\<rparr>)"
    by (simp add: handleMapAction_store assms(3))
  have "notify eng ?m =
      Throws e (m1\<lparr>store := setMapAction (Some a) (store m)\<rparr>\<lparr>subscription := Some (Some a)\<rparr>)"
    using assms(1,2) h by (intro notify_thrown [of _ cur]) (simp_all add: setMapAction_def)
  then show ?thesis
    by (simp add: dispatch_def)
qed










lemma subscribed_mounted [simp]:
  "subscribe mounted_surface =
     \<lparr>store = initial_state 0, mapReady = True, engine = [], subscription = Some None\<rparr>"
  by (simp add: subscribe_def mounted_surface_def initial_state_def)

lemma enqueue_evaluated:
  assumes "subscription m = Some cur"
    and "\<not> object_is cur (Some a)"
    and "handleMapAction eng (Some a) m = Normal m1"
  shows "state_of (dispatch eng (setMapAction (Some a)) m) =
     m1\<lparr>store := clearMapAction (store m), subscription := Some None\<rparr>"
  by (simp add: enqueue_handled [OF assms])



subsection \<open>Two behaviours outside the result\<close>

text \<open>
  A zoom given as 0 is falsy for \<^verbatim>\<open>||\<close>, so the command carries zoom 12. And when the
  engine throws, here on a latitude of 95, the exception leaves the write of the store
  and the action stays in the slot.
\<close>

lemma zero_zoom_replaced:
  "engine (state_of (dispatch accepting_engine
      (setMapAction (Some ((flyTo_centre 1 (71, 51))\<lparr>zoom_a := Some 0\<rparr>)))
      (subscribe mounted_surface)))
     = [FlyTo \<lparr>center_f = Some (71, 51), zoom_f = 12, pitch_f = 0, bearing_f = 0,
               duration_f = 2000\<rparr>]"
  by (subst enqueue_evaluated [of _ None _ _
        "(subscribe mounted_surface)\<lparr>engine := [FlyTo \<lparr>center_f = Some (71, 51), zoom_f = 12,
           pitch_f = 0, bearing_f = 0, duration_f = 2000\<rparr>]\<rparr>"])
     (simp_all add: object_is_def handleMapAction_def issue_def accepting_engine_def
        flyTo_centre_def or_default_def)

lemma engine_exception_keeps_slot:
  "\<not> is_normal (dispatch latitude_checking_engine
      (setMapAction (Some (flyTo_centre 1 (71, 95)))) (subscribe mounted_surface)) \<and>
   pendingMapAction (store (state_of (dispatch latitude_checking_engine
      (setMapAction (Some (flyTo_centre 1 (71, 95)))) (subscribe mounted_surface))))
     = Some (flyTo_centre 1 (71, 95)) \<and>
   engine (state_of (dispatch latitude_checking_engine
      (setMapAction (Some (flyTo_centre 1 (71, 95)))) (subscribe mounted_surface))) = []"
proof -
  let ?a = "flyTo_centre 1 (71, 95)"
  let ?m = "subscribe mounted_surface"
  have h: "handleMapAction latitude_checking_engine (Some ?a) ?m
      = Throws (JsError ''Invalid LngLat latitude value'') ?m"
    by (simp add: handleMapAction_def issue_def flyTo_centre_def or_default_def)
  have "dispatch latitude_checking_engine (setMapAction (Some ?a)) ?m
      = Throws (JsError ''Invalid LngLat latitude value'')
          (?m\<lparr>store := setMapAction (Some ?a) (store ?m), subscription := Some (Some ?a)\<rparr>)"
    using _ _ h by (rule enqueue_thrown [of _ None]) (simp_all add: object_is_def)
  then show ?thesis
    by (simp add: setMapAction_def)
qed

end
